theory Spec2Isabelle
  imports Main
begin

section \<open>Python values and the operations the program applies to them\<close>

text \<open>
  Both programs (the command-line client \<^verbatim>\<open>chat.py\<close> and the middleware
  \<^verbatim>\<open>middleware/apikey_mapper.py\<close>) handle values that come out of
  \<^verbatim>\<open>json.load\<close>: the source never checks their shape beyond an occasional
  \<^verbatim>\<open>isinstance(data, dict)\<close>, so a value may be any JSON value and every operation
  on it may raise. A dictionary is an association list in insertion order (Python iterates a
  dict in insertion order, and \<^verbatim>\<open>list(tokens.values())[0]\<close> depends on it).
  Numbers are integers: floating-point numbers are outside the model. A \<open>char\<close> stands
  for one character of a Python string.
\<close>

datatype json =
    JNull
  | JBool bool
  | JNum int
  | JStr string
  | JArr "json list"
  | JObj "(string \<times> json) list"

type_synonym dict = "(string \<times> json) list"

datatype error =
    TypeError
  | AttributeError
  | KeyError
  | IndexError
  | OSError
  | JSONDecodeError
  | RecursionError
  | ValueError
  | UnicodeEncodeError
  | ConnectError
  | Timeout
  | OtherError

definition bind_r :: "error + 'a \<Rightarrow> ('a \<Rightarrow> error + 'b) \<Rightarrow> error + 'b" where
  "bind_r r f = (case r of Inl e \<Rightarrow> Inl e | Inr x \<Rightarrow> f x)"

text \<open>\<^verbatim>\<open>s.startswith(p)\<close> and \<^verbatim>\<open>p in s\<close> on strings.\<close>

definition starts_with :: "string \<Rightarrow> string \<Rightarrow> bool" where
  "starts_with p s = (take (length p) s = p)"

fun is_substring :: "string \<Rightarrow> string \<Rightarrow> bool" where
  "is_substring p [] = (p = [])"
| "is_substring p (c # cs) = (starts_with p (c # cs) \<or> is_substring p cs)"

text \<open>\<^verbatim>\<open>str.lower()\<close> on the ASCII letters.\<close>

definition lower_char :: "char \<Rightarrow> char" where
  "lower_char c =
     (case map_of (zip ''ABCDEFGHIJKLMNOPQRSTUVWXYZ'' ''abcdefghijklmnopqrstuvwxyz'') c of
        Some d \<Rightarrow> d
      | None \<Rightarrow> c)"

definition lower :: "string \<Rightarrow> string" where
  "lower s = map lower_char s"

text \<open>Truth value of a Python object (\<^verbatim>\<open>if x:\<close>, \<^verbatim>\<open>not x\<close>).\<close>

fun py_truthy :: "json \<Rightarrow> bool" where
  "py_truthy JNull = False"
| "py_truthy (JBool b) = b"
| "py_truthy (JNum n) = (n \<noteq> 0)"
| "py_truthy (JStr s) = (s \<noteq> [])"
| "py_truthy (JArr xs) = (xs \<noteq> [])"
| "py_truthy (JObj kvs) = (kvs \<noteq> [])"

text \<open>
  Python's \<^verbatim>\<open>==\<close>: \<^verbatim>\<open>True == 1\<close>, lists compare element by element, dicts
  compare as sets of items whatever their order.
\<close>

fun py_num :: "json \<Rightarrow> int option" where
  "py_num (JNum n) = Some n"
| "py_num (JBool b) = Some (if b then 1 else 0)"
| "py_num _ = None"

fun py_eq :: "json \<Rightarrow> json \<Rightarrow> bool" where
  "py_eq (JArr xs) (JArr ys) = list_all2 py_eq xs ys"
| "py_eq (JObj xs) (JObj ys) =
     (length xs = length ys \<and>
      list_all (\<lambda>(k, v). case map_of ys k of None \<Rightarrow> False | Some w \<Rightarrow> py_eq v w) xs)"
| "py_eq (JStr s) (JStr t) = (s = t)"
| "py_eq JNull JNull = True"
| "py_eq a b = (case (py_num a, py_num b) of (Some m, Some n) \<Rightarrow> m = n | _ \<Rightarrow> False)"

text \<open>\<^verbatim>\<open>len(x)\<close>: defined on strings, lists and dicts only.\<close>

fun py_len :: "json \<Rightarrow> error + nat" where
  "py_len (JStr s) = Inr (length s)"
| "py_len (JArr xs) = Inr (length xs)"
| "py_len (JObj kvs) = Inr (length kvs)"
| "py_len _ = Inl TypeError"

text \<open>
  \<^verbatim>\<open>xs[i]\<close> on a sequence of length \<open>n\<close>: the positions \<open>0 .. n - 1\<close>, also
  reachable as \<open>- n .. - 1\<close>; every other index raises.
\<close>

definition py_index :: "'a list \<Rightarrow> int \<Rightarrow> error + 'a" where
  "py_index xs i =
     (if 0 \<le> i \<and> i < int (length xs) then Inr (xs ! nat i)
      else if i < 0 \<and> - int (length xs) \<le> i then Inr (xs ! nat (int (length xs) + i))
      else Inl IndexError)"

text \<open>Lists and dicts are unhashable: using one as a dict key raises.\<close>

fun hashable :: "json \<Rightarrow> bool" where
  "hashable (JArr xs) = False"
| "hashable (JObj kvs) = False"
| "hashable _ = True"

text \<open>
  \<^verbatim>\<open>x in c\<close>. The keys of a dict loaded from JSON are strings, so a hashable
  non-string is never among them.
\<close>

fun py_in :: "json \<Rightarrow> json \<Rightarrow> error + bool" where
  "py_in x (JObj kvs) =
     (if \<not> hashable x then Inl TypeError
      else case x of JStr k \<Rightarrow> Inr (k \<in> set (map fst kvs)) | _ \<Rightarrow> Inr False)"
| "py_in x (JArr xs) = Inr (list_ex (py_eq x) xs)"
| "py_in x (JStr s) = (case x of JStr p \<Rightarrow> Inr (is_substring p s) | _ \<Rightarrow> Inl TypeError)"
| "py_in x _ = Inl TypeError"

text \<open>\<^verbatim>\<open>c[k]\<close>.\<close>

fun py_getitem :: "json \<Rightarrow> json \<Rightarrow> error + json" where
  "py_getitem (JObj kvs) k =
     (if \<not> hashable k then Inl TypeError
      else case k of
          JStr s \<Rightarrow> (case map_of kvs s of None \<Rightarrow> Inl KeyError | Some v \<Rightarrow> Inr v)
        | _ \<Rightarrow> Inl KeyError)"
| "py_getitem (JArr xs) k =
     (case py_num k of None \<Rightarrow> Inl TypeError | Some i \<Rightarrow> py_index xs i)"
| "py_getitem (JStr s) k =
     (case py_num k of
        None \<Rightarrow> Inl TypeError
      | Some i \<Rightarrow> bind_r (py_index s i) (\<lambda>c. Inr (JStr [c])))"
| "py_getitem _ k = Inl TypeError"

text \<open>\<^verbatim>\<open>d.get(key, default)\<close>, \<^verbatim>\<open>d.items()\<close>, \<^verbatim>\<open>d.values()\<close>: only a dict has
  these methods.\<close>

fun py_get :: "json \<Rightarrow> string \<Rightarrow> json \<Rightarrow> error + json" where
  "py_get (JObj kvs) k d = Inr (case map_of kvs k of None \<Rightarrow> d | Some v \<Rightarrow> v)"
| "py_get _ k d = Inl AttributeError"

fun py_items :: "json \<Rightarrow> error + dict" where
  "py_items (JObj kvs) = Inr kvs"
| "py_items _ = Inl AttributeError"

fun py_values :: "json \<Rightarrow> error + json list" where
  "py_values (JObj kvs) = Inr (map snd kvs)"
| "py_values _ = Inl AttributeError"

text \<open>
  \<^verbatim>\<open>f"{x}"\<close>: a string is inserted as it is; how Python prints any other value
  (\<^verbatim>\<open>str(x)\<close>) is a parameter \<open>fmt\<close>.
\<close>

definition py_format :: "(json \<Rightarrow> string) \<Rightarrow> json \<Rightarrow> string" where
  "py_format fmt v = (case v of JStr s \<Rightarrow> s | _ \<Rightarrow> fmt v)"

text \<open>Dictionary update and deletion by key, keeping insertion order.\<close>

fun dict_set :: "dict \<Rightarrow> string \<Rightarrow> json \<Rightarrow> dict" where
  "dict_set [] k v = [(k, v)]"
| "dict_set ((k', v') # kvs) k v =
     (if k' = k then (k, v) # kvs else (k', v') # dict_set kvs k v)"

definition dict_del :: "dict \<Rightarrow> string \<Rightarrow> dict" where
  "dict_del kvs k = filter (\<lambda>(k', v). k' \<noteq> k) kvs"

definition dict_get :: "dict \<Rightarrow> string \<Rightarrow> json \<Rightarrow> json" where
  "dict_get kvs k d = (case map_of kvs k of None \<Rightarrow> d | Some v \<Rightarrow> v)"

section \<open>The request-key-rewrite middleware\<close>

text \<open>
  \<^verbatim>\<open>APIKeyMapperMiddleware\<close> reads \<^verbatim>\<open>auth/apikeys.json\<close> and
  \<^verbatim>\<open>auth/tokens.json\<close>. A file is absent, or opening or parsing it raises, or
  it holds a JSON value.
\<close>

datatype file_state = Absent | Unreadable error | Content json

record auth_dir =
  apikeys_file :: file_state
  tokens_file :: file_state

datatype file_id = ApikeysPath | TokensPath

text \<open>
  One \<^verbatim>\<open>if file.exists(): with open(file) as f: x = json.load(f)\<close>: an absent file
  leaves the default \<^verbatim>\<open>{}\<close>.
\<close>

fun read_json :: "file_state \<Rightarrow> error + json" where
  "read_json Absent = Inr (JObj [])"
| "read_json (Unreadable e) = Inl e"
| "read_json (Content j) = Inr j"

text \<open>
  The body of the \<^verbatim>\<open>try\<close> of \<^verbatim>\<open>load_mappings\<close>, with the files it touched:
  the tokens file is not reached when the API-key file raises.
\<close>

definition load_files :: "auth_dir \<Rightarrow> (error + json \<times> json) \<times> file_id list" where
  "load_files fs =
     (case read_json (apikeys_file fs) of
        Inl e \<Rightarrow> (Inl e, [ApikeysPath])
      | Inr apikeys \<Rightarrow>
          (case read_json (tokens_file fs) of
             Inl e \<Rightarrow> (Inl e, [ApikeysPath, TokensPath])
           | Inr tokens \<Rightarrow> (Inr (apikeys, tokens), [ApikeysPath, TokensPath])))"

definition load_mappings :: "auth_dir \<Rightarrow> (json \<times> json) \<times> file_id list" where
  "load_mappings fs =
     (case load_files fs of
        (Inl e, reads) \<Rightarrow> ((JObj [], JObj []), reads)
      | (Inr maps, reads) \<Rightarrow> (maps, reads))"

text \<open>\<^verbatim>\<open>isinstance(data, dict) and data.get('key') == api_key\<close>.\<close>

fun matches_key :: "json \<Rightarrow> string \<Rightarrow> bool" where
  "matches_key (JObj kvs) api_key = py_eq (dict_get kvs ''key'' JNull) (JStr api_key)"
| "matches_key _ api_key = False"

text \<open>
  The \<^verbatim>\<open>for name, data in apikeys.items()\<close> loop of
  \<^verbatim>\<open>map_apikey_to_token\<close>: \<open>Some v\<close> is a \<^verbatim>\<open>return v\<close> inside the loop,
  \<open>None\<close> is the loop running to its end.
\<close>

fun find_apikey :: "dict \<Rightarrow> json \<Rightarrow> string \<Rightarrow> error + json option" where
  "find_apikey [] tokens api_key = Inr None"
| "find_apikey ((name, data) # rest) tokens api_key =
     (if matches_key data api_key then
        bind_r (py_get data ''token_name'' (JStr ''auto'')) (\<lambda>token_name.
        bind_r (py_in token_name tokens) (\<lambda>found.
          if found then bind_r (py_getitem tokens token_name) (\<lambda>v. Inr (Some v))
          else if py_eq token_name (JStr ''auto'') \<and> py_truthy tokens then
            bind_r (py_values tokens) (\<lambda>vs. bind_r (py_index vs 0) (\<lambda>v. Inr (Some v)))
          else find_apikey rest tokens api_key))
      else find_apikey rest tokens api_key)"

text \<open>
  The body of the \<^verbatim>\<open>try\<close> of \<^verbatim>\<open>map_apikey_to_token\<close> after the load: the
  log line evaluates \<^verbatim>\<open>len(apikeys)\<close> and \<^verbatim>\<open>len(tokens)\<close> before the loop.
\<close>

definition map_search :: "json \<Rightarrow> json \<Rightarrow> string \<Rightarrow> error + json" where
  "map_search apikeys tokens api_key =
     bind_r (py_len apikeys) (\<lambda>n.
     bind_r (py_len tokens) (\<lambda>m.
     bind_r (py_items apikeys) (\<lambda>items.
     bind_r (find_apikey items tokens api_key) (\<lambda>r.
       Inr (case r of Some v \<Rightarrow> v | None \<Rightarrow> JStr api_key)))))"

definition map_apikey_to_token :: "auth_dir \<Rightarrow> string \<Rightarrow> json \<times> file_id list" where
  "map_apikey_to_token fs api_key =
     (if api_key = [] \<or> \<not> starts_with ''sk-'' api_key then (JStr api_key, [])
      else
        case load_mappings fs of
          ((apikeys, tokens), reads) \<Rightarrow>
            (case map_search apikeys tokens api_key of
               Inl e \<Rightarrow> (JStr api_key, reads)
             | Inr v \<Rightarrow> (v, reads)))"

text \<open>
  Request headers are the list \<^verbatim>\<open>request.scope["headers"]\<close> of name and value,
  both byte strings. \<^verbatim>\<open>request.headers.get(key, default)\<close> is Starlette's lookup:
  the first header whose name equals the lower-cased key, its value decoded as Latin-1, byte
  for byte.
\<close>

type_synonym headers = "(string \<times> string) list"

definition headers_get :: "headers \<Rightarrow> string \<Rightarrow> string \<Rightarrow> string" where
  "headers_get hs key d = (case map_of hs (lower key) of None \<Rightarrow> d | Some v \<Rightarrow> v)"

text \<open>
  \<^verbatim>\<open>dispatch\<close>: the result is what \<^verbatim>\<open>call_next\<close> returns on the forwarded
  headers, with the mapping files read on the way. The new header value is
  \<^verbatim>\<open>f"Bearer {mapped_token}".encode()\<close>: \<^verbatim>\<open>str.encode\<close> is the parameter
  \<open>encode\<close>, which gives the UTF-8 bytes or raises (on a lone surrogate); no
  \<^verbatim>\<open>try\<close> is around it, so what it raises leaves \<^verbatim>\<open>dispatch\<close> and the
  request is not forwarded.
\<close>

definition dispatch ::
  "(json \<Rightarrow> string) \<Rightarrow> (string \<Rightarrow> error + string) \<Rightarrow> auth_dir \<Rightarrow> headers
     \<Rightarrow> (headers \<Rightarrow> 'r) \<Rightarrow> (error + 'r) \<times> file_id list" where
  "dispatch fmt encode fs hs call_next =
     (let auth_header = headers_get hs ''authorization'' [] in
      if starts_with ''Bearer '' auth_header then
        let original_token = drop 7 auth_header in
        if starts_with ''sk-'' original_token then
          case map_apikey_to_token fs original_token of
            (mapped_token, reads) \<Rightarrow>
              if \<not> py_eq mapped_token (JStr original_token) then
                (case encode (''Bearer '' @ py_format fmt mapped_token) of
                   Inl e \<Rightarrow> (Inl e, reads)
                 | Inr bearer \<Rightarrow>
                     (Inr (call_next
                        (map (\<lambda>(name, value).
                                if lower name = ''authorization'' then (name, bearer)
                                else (name, value)) hs)),
                      reads))
              else (Inr (call_next hs), reads)
        else (Inr (call_next hs), [])
      else (Inr (call_next hs), []))"

text \<open>
  UTF-8 on the characters a \<open>char\<close> can be, the code points below 256: one byte below
  128, two bytes from there on. It never raises on them.
\<close>

fun utf8_char :: "char \<Rightarrow> string" where
  "utf8_char (Char b0 b1 b2 b3 b4 b5 b6 b7) =
     (if b7 then [Char b6 True False False False False True True,
                  Char b0 b1 b2 b3 b4 b5 False True]
      else [Char b0 b1 b2 b3 b4 b5 b6 b7])"

definition utf8_encode :: "string \<Rightarrow> error + string" where
  "utf8_encode s = Inr (concat (map utf8_char s))"

section \<open>The credential store of the command-line client\<close>

text \<open>
  \<^verbatim>\<open>Config\<close> keeps three dicts in memory (\<^verbatim>\<open>self.config\<close>,
  \<^verbatim>\<open>self.tokens\<close>, \<^verbatim>\<open>self.apikeys\<close>) and writes each to its file after a
  change. The world of the client is these dicts, the files, and the network calls made so
  far. Writing a file (creating its directory, opening it, writing) raises when the file is
  not writable. \<^verbatim>\<open>load_tokens\<close> and \<^verbatim>\<open>load_apikeys\<close> return dicts only, so the
  \<^verbatim>\<open>if not isinstance(self.tokens, dict)\<close> resets never fire and are left out.
\<close>

datatype path = ConfigFile | TokensFile | ApikeysFile | TokenLog

datatype content = Document json | Lines "string list"

datatype request =
    GetHealth string
  | GetModels string
  | PostSyncTokens json dict
  | PostSyncApikeys json dict

datatype reply = Raises error | Reply nat string

record world =
  config :: dict
  tokens :: dict
  apikeys :: dict
  disk :: "path \<Rightarrow> content option"
  writable :: "path \<Rightarrow> bool"
  requests :: "request list"

definition write_file :: "path \<Rightarrow> content \<Rightarrow> world \<Rightarrow> (error + unit) \<times> world" where
  "write_file p c w =
     (if writable w p then (Inr (), w\<lparr>disk := (disk w)(p \<mapsto> c)\<rparr>) else (Inl OSError, w))"

definition save_config :: "world \<Rightarrow> (error + unit) \<times> world" where
  "save_config w = write_file ConfigFile (Document (JObj (config w))) w"

definition save_tokens :: "world \<Rightarrow> (error + unit) \<times> world" where
  "save_tokens w = write_file TokensFile (Document (JObj (tokens w))) w"

definition save_apikeys :: "world \<Rightarrow> (error + unit) \<times> world" where
  "save_apikeys w = write_file ApikeysFile (Document (JObj (apikeys w))) w"

text \<open>\<^verbatim>\<open>normalize_endpoint\<close>: \<^verbatim>\<open>endpoint.rstrip('/')\<close> of a non-empty string.\<close>

definition normalize_endpoint :: "string \<Rightarrow> string" where
  "normalize_endpoint endpoint =
     (if endpoint \<noteq> [] then rev (dropWhile (\<lambda>c. c = CHR ''/'') (rev endpoint)) else endpoint)"

text \<open>\<^verbatim>\<open>Config.set\<close>, called by the program with a string value.\<close>

definition config_set :: "string \<Rightarrow> string \<Rightarrow> world \<Rightarrow> (error + unit) \<times> world" where
  "config_set key val w =
     (let v = (if key = ''api_endpoint'' \<and> val \<noteq> [] then normalize_endpoint val else val)
      in save_config (w\<lparr>config := dict_set (config w) key (JStr v)\<rparr>))"

text \<open>
  The remote syncs: skipped when the endpoint is the local default, and every exception of
  the call is caught.
\<close>

definition sync_tokens_to_server :: "(request \<Rightarrow> reply) \<Rightarrow> world \<Rightarrow> bool \<times> world" where
  "sync_tokens_to_server net w =
     (let endpoint = dict_get (config w) ''api_endpoint'' (JStr ''http://localhost:5005'') in
      if py_eq endpoint (JStr ''http://localhost:5005'') then (False, w)
      else
        let call = PostSyncTokens endpoint (tokens w);
            w' = w\<lparr>requests := requests w @ [call]\<rparr>
        in case net call of
             Reply status text \<Rightarrow> (status = 200, w')
           | Raises e \<Rightarrow> (False, w'))"

definition sync_apikeys_to_server :: "(request \<Rightarrow> reply) \<Rightarrow> world \<Rightarrow> bool \<times> world" where
  "sync_apikeys_to_server net w =
     (let endpoint = dict_get (config w) ''api_endpoint'' (JStr ''http://localhost:5005'') in
      if py_eq endpoint (JStr ''http://localhost:5005'') then (False, w)
      else
        let call = PostSyncApikeys endpoint (apikeys w);
            w' = w\<lparr>requests := requests w @ [call]\<rparr>
        in case net call of
             Reply status text \<Rightarrow> (status = 200, w')
           | Raises e \<Rightarrow> (False, w'))"

text \<open>
  The append of \<^verbatim>\<open>add_token\<close> to \<^verbatim>\<open>data/token.txt\<close>:
  \<^verbatim>\<open>DATA_DIR.mkdir(exist_ok=True)\<close>, \<^verbatim>\<open>open(token_file, 'a')\<close>, one line written.
  Nothing catches what these raise.
\<close>

definition append_token_log :: "string \<Rightarrow> world \<Rightarrow> (error + unit) \<times> world" where
  "append_token_log token w =
     (let old = (case disk w TokenLog of Some (Lines ls) \<Rightarrow> ls | _ \<Rightarrow> [])
      in write_file TokenLog (Lines (old @ [token])) w)"

definition add_token ::
  "(request \<Rightarrow> reply) \<Rightarrow> string \<Rightarrow> string \<Rightarrow> bool \<Rightarrow> world \<Rightarrow> (error + unit) \<times> world" where
  "add_token net name token sync_to_server w =
     (case save_tokens (w\<lparr>tokens := dict_set (tokens w) name (JStr token)\<rparr>) of
        (Inl e, w1) \<Rightarrow> (Inl e, w1)
      | (Inr u, w1) \<Rightarrow>
          (case append_token_log token w1 of
             (Inl e, w2) \<Rightarrow> (Inl e, w2)
           | (Inr u, w2) \<Rightarrow>
               if sync_to_server then (Inr (), snd (sync_tokens_to_server net w2))
               else (Inr (), w2)))"

definition remove_token :: "string \<Rightarrow> world \<Rightarrow> (error + bool) \<times> world" where
  "remove_token name w =
     (if name \<in> set (map fst (tokens w)) then
        case save_tokens (w\<lparr>tokens := dict_del (tokens w) name\<rparr>) of
          (Inl e, w1) \<Rightarrow> (Inl e, w1)
        | (Inr u, w1) \<Rightarrow> (Inr True, w1)
      else (Inr False, w))"

definition use_token :: "string \<Rightarrow> world \<Rightarrow> (error + bool) \<times> world" where
  "use_token name w =
     (if name \<in> set (map fst (tokens w)) then
        case save_config (w\<lparr>config := dict_set (config w) ''active_token'' (JStr name)\<rparr>) of
          (Inl e, w1) \<Rightarrow> (Inl e, w1)
        | (Inr u, w1) \<Rightarrow> (Inr True, w1)
      else (Inr False, w))"

text \<open>
  \<^verbatim>\<open>get_active_token\<close>; Python's \<^verbatim>\<open>None\<close> is \<open>JNull\<close>. The reference
  \<^verbatim>\<open>active\<close> is whatever the configuration holds under \<^verbatim>\<open>'active_token'\<close>.
\<close>

definition get_active_token :: "world \<Rightarrow> error + json" where
  "get_active_token w =
     (let active = dict_get (config w) ''active_token'' JNull in
      bind_r (if py_truthy active then py_in active (JObj (tokens w)) else Inr False) (\<lambda>found.
        if found then py_getitem (JObj (tokens w)) active
        else if py_truthy (JObj (tokens w)) then
          bind_r (py_values (JObj (tokens w))) (\<lambda>vs. py_index vs 0)
        else Inr JNull))"

text \<open>
  \<^verbatim>\<open>generate_apikey\<close>: the 48 characters drawn from \<^verbatim>\<open>secrets.choice\<close> and the
  timestamp \<^verbatim>\<open>datetime.now().isoformat()\<close> are parameters.
\<close>

definition generate_apikey ::
  "(request \<Rightarrow> reply) \<Rightarrow> string \<Rightarrow> string \<Rightarrow> string \<Rightarrow> bool \<Rightarrow> world
     \<Rightarrow> (error + string) \<times> world" where
  "generate_apikey net random_part now name sync_to_server w =
     (let api_key = ''sk-'' @ random_part;
          entry = JObj [(''key'', JStr api_key),
                        (''created'', JStr now),
                        (''token_name'', dict_get (config w) ''active_token'' (JStr ''auto''))]
      in case save_apikeys (w\<lparr>apikeys := dict_set (apikeys w) name entry\<rparr>) of
           (Inl e, w1) \<Rightarrow> (Inl e, w1)
         | (Inr u, w1) \<Rightarrow>
             if sync_to_server then (Inr api_key, snd (sync_apikeys_to_server net w1))
             else (Inr api_key, w1))"

section \<open>The endpoint switch\<close>

text \<open>
  \<^verbatim>\<open>switch_endpoint\<close>: every \<^verbatim>\<open>except\<close> branch returns \<^verbatim>\<open>False\<close>; the inner
  bare \<^verbatim>\<open>except: pass\<close> of the fallback falls through to the same
  \<^verbatim>\<open>return False\<close>. The panels printed are left out.
\<close>

definition switch_endpoint :: "(request \<Rightarrow> reply) \<Rightarrow> string \<Rightarrow> world \<Rightarrow> bool \<times> world" where
  "switch_endpoint net new_endpoint w =
     (if \<not> (starts_with ''http://'' new_endpoint \<or> starts_with ''https://'' new_endpoint)
      then (False, w)
      else
        let w1 = w\<lparr>requests := requests w @ [GetHealth new_endpoint]\<rparr> in
        case net (GetHealth new_endpoint) of
          Raises e \<Rightarrow> (False, w1)
        | Reply status text \<Rightarrow>
            if status = 200 then
              (case config_set ''api_endpoint'' new_endpoint w1 of
                 (Inl e, w2) \<Rightarrow> (False, w2)
               | (Inr u, w2) \<Rightarrow> (True, w2))
            else if status = 403 then
              let w2 = w1\<lparr>requests := requests w1 @ [GetModels new_endpoint]\<rparr> in
              (case net (GetModels new_endpoint) of
                 Raises e \<Rightarrow> (False, w2)
               | Reply fallback_status fallback_text \<Rightarrow>
                   if fallback_status = 403 \<and> is_substring ''RBAC'' fallback_text then
                     (case config_set ''api_endpoint'' new_endpoint w2 of
                        (Inl e, w3) \<Rightarrow> (False, w3)
                      | (Inr u, w3) \<Rightarrow> (True, w3))
                   else (False, w2))
            else (False, w1))"

section \<open>The streaming response reader and the chat turn\<close>

text \<open>
  The gateway's answer to the POST of \<^verbatim>\<open>send_message\<close>: the call raises, or it
  returns a status with a body. In streaming mode the body is read line by line
  (\<^verbatim>\<open>response.aiter_lines()\<close>), and reading may raise before the body ends; otherwise
  \<^verbatim>\<open>response.json()\<close> parses it, which raises when the body is not JSON (\<open>None\<close>).
\<close>

datatype stream_event = Line string | ReadError error

datatype chat_reply = NoReply error | ChatReply nat "stream_event list" "json option"

type_synonym message = "string \<times> json"

record chat_request =
  req_endpoint :: json
  req_auth :: json
  req_model :: json
  req_messages :: "message list"
  req_stream :: bool

text \<open>
  What the streaming loop changes: the increments printed so far
  (\<^verbatim>\<open>console.print(content, end="")\<close>), \<^verbatim>\<open>full_response\<close> and
  \<^verbatim>\<open>actual_model\<close>. How the terminal renders an increment is left out.
\<close>

record stream_state =
  emitted :: "json list"
  full_response :: string
  actual_model :: json

definition extract_actual_model :: "json \<Rightarrow> json \<Rightarrow> json" where
  "extract_actual_model response_model requested_model =
     (if \<not> py_truthy response_model then requested_model
      else if py_eq response_model requested_model then response_model
      else response_model)"

text \<open>
  The body of the \<^verbatim>\<open>try\<close> inside the loop, on a chunk that \<^verbatim>\<open>json.loads\<close>
  has parsed. An exception here is not a \<^verbatim>\<open>JSONDecodeError\<close>, so it leaves the loop;
  the state is what the loop had done when it was raised.
\<close>

definition process_chunk :: "json \<Rightarrow> json \<Rightarrow> stream_state \<Rightarrow> (error + unit) \<times> stream_state" where
  "process_chunk model json_chunk st =
     (case bind_r (py_in (JStr ''choices'') json_chunk) (\<lambda>has_choices.
             if has_choices then
               bind_r (py_getitem json_chunk (JStr ''choices'')) (\<lambda>choices.
               bind_r (py_len choices) (\<lambda>n. Inr (0 < n)))
             else Inr False) of
        Inl e \<Rightarrow> (Inl e, st)
      | Inr False \<Rightarrow> (Inr (), st)
      | Inr True \<Rightarrow>
          (case bind_r (py_in (JStr ''model'') json_chunk) (\<lambda>has_model.
                  if has_model then
                    bind_r (py_getitem json_chunk (JStr ''model'')) (\<lambda>m.
                      Inr (extract_actual_model m model))
                  else Inr (actual_model st)) of
             Inl e \<Rightarrow> (Inl e, st)
           | Inr am \<Rightarrow>
               let st1 = st\<lparr>actual_model := am\<rparr> in
               (case bind_r (py_getitem json_chunk (JStr ''choices'')) (\<lambda>choices.
                     bind_r (py_getitem choices (JNum 0)) (\<lambda>choice.
                     bind_r (py_get choice ''delta'' (JObj [])) (\<lambda>delta.
                       py_get delta ''content'' (JStr [])))) of
                  Inl e \<Rightarrow> (Inl e, st1)
                | Inr content \<Rightarrow>
                    if py_truthy content then
                      let st2 = st1\<lparr>emitted := emitted st1 @ [content]\<rparr> in
                      (case content of
                         JStr s \<Rightarrow> (Inr (), st2\<lparr>full_response := full_response st2 @ s\<rparr>)
                       | _ \<Rightarrow> (Inl TypeError, st2))
                    else (Inr (), st1))))"


text \<open>
  The loop \<^verbatim>\<open>async for chunk in response.aiter_lines()\<close>. \<^verbatim>\<open>json.loads\<close> is the
  parameter \<open>loads\<close>: it returns the parsed value or raises. The loop catches
  \<^verbatim>\<open>json.JSONDecodeError\<close> only and goes on with the next line; any other exception
  of \<^verbatim>\<open>json.loads\<close> (\<^verbatim>\<open>RecursionError\<close> on deep nesting, \<^verbatim>\<open>ValueError\<close> on an
  over-long integer) leaves the loop as an exception of the body does.
\<close>

fun read_lines ::
  "(string \<Rightarrow> error + json) \<Rightarrow> json \<Rightarrow> stream_event list \<Rightarrow> stream_state
     \<Rightarrow> (error + unit) \<times> stream_state" where
  "read_lines loads model [] st = (Inr (), st)"
| "read_lines loads model (ReadError e # rest) st = (Inl e, st)"
| "read_lines loads model (Line chunk # rest) st =
     (if starts_with ''data: '' chunk then
        let chunk_data = drop 6 chunk in
        if chunk_data = ''[DONE]'' then (Inr (), st)
        else
          case loads chunk_data of
            Inl e \<Rightarrow>
              if e = JSONDecodeError then read_lines loads model rest st else (Inl e, st)
          | Inr json_chunk \<Rightarrow>
              (case process_chunk model json_chunk st of
                 (Inl e, st') \<Rightarrow> (Inl e, st')
               | (Inr u, st') \<Rightarrow> read_lines loads model rest st')
      else read_lines loads model rest st)"

text \<open>
  \<^verbatim>\<open>send_message\<close> returns the pair \<^verbatim>\<open>(text or None, actual model)\<close>; the model
  adds what was printed as the answer. \<^verbatim>\<open>config.get_active_token()\<close> is called before
  the \<^verbatim>\<open>try\<close>, so what it raises leaves \<^verbatim>\<open>send_message\<close>; everything after is
  caught and gives \<^verbatim>\<open>(None, model)\<close>.
\<close>

definition send_message ::
  "(string \<Rightarrow> error + json) \<Rightarrow> (chat_request \<Rightarrow> chat_reply) \<Rightarrow> world \<Rightarrow> json \<Rightarrow> message list
     \<Rightarrow> bool \<Rightarrow> error + (json \<times> json) \<times> json list" where
  "send_message loads server w model conversation_history stream =
     (let endpoint = dict_get (config w) ''api_endpoint'' (JStr ''http://localhost:5005'') in
      bind_r (get_active_token w) (\<lambda>auth.
        if \<not> py_truthy auth then Inr ((JNull, model), [])
        else
          case server \<lparr>req_endpoint = endpoint, req_auth = auth, req_model = model,
                       req_messages = conversation_history, req_stream = stream\<rparr> of
            NoReply e \<Rightarrow> Inr ((JNull, model), [])
          | ChatReply status events body \<Rightarrow>
              if stream then
                if status \<noteq> 200 then Inr ((JNull, model), [])
                else
                  case read_lines loads model events
                         \<lparr>emitted = [], full_response = [], actual_model = model\<rparr> of
                    (Inl e, st) \<Rightarrow> Inr ((JNull, model), emitted st)
                  | (Inr u, st) \<Rightarrow>
                      Inr ((JStr (full_response st), actual_model st), emitted st)
              else
                if status \<noteq> 200 then Inr ((JNull, model), [])
                else
                  case body of
                    None \<Rightarrow> Inr ((JNull, model), [])
                  | Some result \<Rightarrow>
                      (case bind_r (py_getitem result (JStr ''choices'')) (\<lambda>choices.
                            bind_r (py_getitem choices (JNum 0)) (\<lambda>choice.
                            bind_r (py_getitem choice (JStr ''message'')) (\<lambda>msg.
                            bind_r (py_getitem msg (JStr ''content'')) (\<lambda>content.
                            bind_r (py_get result ''model'' (JStr [])) (\<lambda>response_model.
                              Inr (content, extract_actual_model response_model model)))))) of
                         Inl e \<Rightarrow> Inr ((JNull, model), [])
                       | Inr (content, am) \<Rightarrow> Inr ((content, am), [content]))))"

text \<open>
  The state of the loop of \<^verbatim>\<open>main\<close> and its last branch, the chat turn: the user's
  entry is appended before the call; an exception of the call is caught by the loop's
  \<^verbatim>\<open>except Exception\<close>, which prints it and goes on with the state as it is.
\<close>

record session =
  current_model :: json
  current_stream :: bool
  conversation_history :: "message list"


section \<open>A JSON parser to run the reader on concrete lines\<close>

text \<open>
  \<^verbatim>\<open>json.loads\<close> is Python's library, and the theorems about the reader hold for every
  \<open>loads\<close>. To run the reader on the lines of an example, \<open>json_loads\<close> parses the
  JSON texts made of objects, arrays, strings with the one-letter escapes, integers,
  \<^verbatim>\<open>true\<close>, \<^verbatim>\<open>false\<close> and \<^verbatim>\<open>null\<close>. As CPython does, it raises
  \<^verbatim>\<open>RecursionError\<close> when arrays and objects nest deeper than the interpreter allows,
  and \<^verbatim>\<open>ValueError\<close> on an integer of more digits than \<^verbatim>\<open>int\<close> converts; the
  two bounds are parameters, \<open>cpython_limits\<close> their usual values. Every other text
  gives \<^verbatim>\<open>JSONDecodeError\<close>, also the numbers with a fraction or an exponent and the
  \<^verbatim>\<open>\u\<close> escapes, which Python accepts: \<open>json_loads\<close> stands for
  \<^verbatim>\<open>json.loads\<close> on texts without them only. The recursion descends on a fuel that
  starts above twice the length of the text.
\<close>

record py_limits =
  recursion_limit :: nat
  int_max_str_digits :: nat

definition cpython_limits :: py_limits where
  "cpython_limits = \<lparr>recursion_limit = 1000, int_max_str_digits = 4300\<rparr>"

definition is_ws :: "char \<Rightarrow> bool" where
  "is_ws c = (c \<in> set [CHR '' '', CHR 0x0A, CHR 0x0D, CHR 0x09])"

definition skip_ws :: "string \<Rightarrow> string" where
  "skip_ws s = dropWhile is_ws s"

definition unescape :: "char \<Rightarrow> char option" where
  "unescape c =
     map_of [(CHR 0x22, CHR 0x22), (CHR 0x5C, CHR 0x5C), (CHR ''/'', CHR ''/''),
             (CHR ''n'', CHR 0x0A), (CHR ''r'', CHR 0x0D), (CHR ''t'', CHR 0x09),
             (CHR ''b'', CHR 0x08), (CHR ''f'', CHR 0x0C)] c"

fun parse_string :: "string \<Rightarrow> string \<Rightarrow> error + string \<times> string" where
  "parse_string acc [] = Inl JSONDecodeError"
| "parse_string acc (c # cs) =
     (if c = CHR 0x22 then Inr (rev acc, cs)
      else if c = CHR 0x5C then
        (case cs of
           [] \<Rightarrow> Inl JSONDecodeError
         | e # cs' \<Rightarrow>
             (case unescape e of
                None \<Rightarrow> Inl JSONDecodeError
              | Some d \<Rightarrow> parse_string (d # acc) cs'))
      else parse_string (c # acc) cs)"

definition digit_val :: "char \<Rightarrow> nat option" where
  "digit_val c = map_of (zip ''0123456789'' [0, 1, 2, 3, 4, 5, 6, 7, 8, 9]) c"

text \<open>The digits of an integer: the value, how many digits it has, and the rest.\<close>

fun parse_digits :: "nat \<Rightarrow> nat \<Rightarrow> string \<Rightarrow> nat \<times> nat \<times> string" where
  "parse_digits acc len [] = (acc, len, [])"
| "parse_digits acc len (c # cs) =
     (case digit_val c of
        None \<Rightarrow> (acc, len, c # cs)
      | Some d \<Rightarrow> parse_digits (10 * acc + d) (Suc len) cs)"

definition parse_nat :: "py_limits \<Rightarrow> string \<Rightarrow> error + nat \<times> string" where
  "parse_nat lim s =
     (case s of
        [] \<Rightarrow> Inl JSONDecodeError
      | c # cs \<Rightarrow>
          (case digit_val c of
             None \<Rightarrow> Inl JSONDecodeError
           | Some d \<Rightarrow>
               (case (if d = 0 then (0, 1, cs) else parse_digits d 1 cs) of
                  (n, len, rest) \<Rightarrow>
                    if rest \<noteq> [] \<and> hd rest \<in> set ''.eE0123456789'' then Inl JSONDecodeError
                    else if 0 < int_max_str_digits lim \<and> int_max_str_digits lim < len
                    then Inl ValueError
                    else Inr (n, rest))))"

text \<open>
  \<open>depth\<close> is how many more levels of arrays and objects may be entered.
\<close>

fun parse_value :: "py_limits \<Rightarrow> nat \<Rightarrow> nat \<Rightarrow> string \<Rightarrow> error + json \<times> string"
and parse_elements ::
  "py_limits \<Rightarrow> nat \<Rightarrow> nat \<Rightarrow> json list \<Rightarrow> string \<Rightarrow> error + json list \<times> string"
and parse_members ::
  "py_limits \<Rightarrow> nat \<Rightarrow> nat \<Rightarrow> dict \<Rightarrow> string \<Rightarrow> error + dict \<times> string" where
  "parse_value lim 0 depth s = Inl JSONDecodeError"
| "parse_value lim (Suc fuel) depth s =
     (case s of
        [] \<Rightarrow> Inl JSONDecodeError
      | c # cs \<Rightarrow>
          if c = CHR 0x22 then
            bind_r (parse_string [] cs) (\<lambda>(str, rest). Inr (JStr str, rest))
          else if c = CHR ''['' then
            (case depth of
               0 \<Rightarrow> Inl RecursionError
             | Suc depth' \<Rightarrow>
                 if take 1 (skip_ws cs) = '']'' then Inr (JArr [], drop 1 (skip_ws cs))
                 else bind_r (parse_elements lim fuel depth' [] (skip_ws cs))
                        (\<lambda>(xs, rest). Inr (JArr xs, rest)))
          else if c = CHR ''{'' then
            (case depth of
               0 \<Rightarrow> Inl RecursionError
             | Suc depth' \<Rightarrow>
                 if take 1 (skip_ws cs) = ''}'' then Inr (JObj [], drop 1 (skip_ws cs))
                 else bind_r (parse_members lim fuel depth' [] (skip_ws cs))
                        (\<lambda>(kvs, rest). Inr (JObj kvs, rest)))
          else if starts_with ''null'' s then Inr (JNull, drop 4 s)
          else if starts_with ''true'' s then Inr (JBool True, drop 4 s)
          else if starts_with ''false'' s then Inr (JBool False, drop 5 s)
          else if c = CHR ''-'' then
            bind_r (parse_nat lim cs) (\<lambda>(n, rest). Inr (JNum (- int n), rest))
          else
            bind_r (parse_nat lim s) (\<lambda>(n, rest). Inr (JNum (int n), rest)))"
| "parse_elements lim 0 depth acc s = Inl JSONDecodeError"
| "parse_elements lim (Suc fuel) depth acc s =
     bind_r (parse_value lim fuel depth s) (\<lambda>(v, rest).
       case skip_ws rest of
         [] \<Rightarrow> Inl JSONDecodeError
       | c # cs \<Rightarrow>
           if c = CHR '']'' then Inr (acc @ [v], cs)
           else if c = CHR '','' then parse_elements lim fuel depth (acc @ [v]) (skip_ws cs)
           else Inl JSONDecodeError)"
| "parse_members lim 0 depth acc s = Inl JSONDecodeError"
| "parse_members lim (Suc fuel) depth acc s =
     (case s of
        [] \<Rightarrow> Inl JSONDecodeError
      | q # s1 \<Rightarrow>
          if q \<noteq> CHR 0x22 then Inl JSONDecodeError
          else
            bind_r (parse_string [] s1) (\<lambda>(k, s2).
              case skip_ws s2 of
                [] \<Rightarrow> Inl JSONDecodeError
              | colon # s3 \<Rightarrow>
                  if colon \<noteq> CHR '':'' then Inl JSONDecodeError
                  else
                    bind_r (parse_value lim fuel depth (skip_ws s3)) (\<lambda>(v, s4).
                      case skip_ws s4 of
                        [] \<Rightarrow> Inl JSONDecodeError
                      | c # cs \<Rightarrow>
                          if c = CHR ''}'' then Inr (dict_set acc k v, cs)
                          else if c = CHR '','' then
                            parse_members lim fuel depth (dict_set acc k v) (skip_ws cs)
                          else Inl JSONDecodeError)))"

definition json_loads :: "py_limits \<Rightarrow> string \<Rightarrow> error + json" where
  "json_loads lim s =
     bind_r (parse_value lim (2 * length s + 2) (recursion_limit lim) (skip_ws s)) (\<lambda>(v, rest).
       if skip_ws rest = [] then Inr v else Inl JSONDecodeError)"

text \<open>The parser in the interpreter the program runs in.\<close>

definition cpython_loads :: "string \<Rightarrow> error + json" where
  "cpython_loads = json_loads cpython_limits"

section \<open>Example inputs\<close>

text \<open>A mapping directory with one API key linked to the one token.\<close>

definition example_auth_dir :: auth_dir where
  "example_auth_dir =
     \<lparr>apikeys_file = Content (JObj [(''my-app'',
          JObj [(''key'', JStr ''sk-abc''), (''created'', JStr ''2025-01-01T00:00:00''),
                (''token_name'', JStr ''default'')])]),
      tokens_file = Content (JObj [(''default'', JStr ''eyJtoken'')])\<rparr>"

text \<open>
  Two mapping directories in which two entries hold the same key: in the first both
  resolve, to different tokens; in the second the earlier one names a token that no longer
  exists.
\<close>

definition shared_key_dir :: auth_dir where
  "shared_key_dir =
     \<lparr>apikeys_file = Content (JObj
        [(''a'', JObj [(''key'', JStr ''sk-abc''), (''token_name'', JStr ''t1'')]),
         (''b'', JObj [(''key'', JStr ''sk-abc''), (''token_name'', JStr ''t2'')])]),
      tokens_file = Content (JObj [(''t1'', JStr ''AAA''), (''t2'', JStr ''BBB'')])\<rparr>"


text \<open>
  The client's world on a first start (the configuration \<^verbatim>\<open>load_config\<close> returns
  when there is no file), and the same with one token added and not made active.
\<close>

definition default_world :: world where
  "default_world =
     \<lparr>config = [(''api_endpoint'', JStr ''http://localhost:5005''),
                (''default_model'', JStr ''gpt-3.5-turbo''),
                (''active_token'', JNull)],
      tokens = [],
      apikeys = [],
      disk = (\<lambda>p. None),
      writable = (\<lambda>p. True),
      requests = []\<rparr>"

definition unused_token_world :: world where
  "unused_token_world = default_world\<lparr>tokens := [(''default'', JStr ''eyJhbGciOiJSUzI1NiJ9.e30.c2ln'')]\<rparr>"

text \<open>A world with a remote gateway configured and two tokens, the first one active.\<close>

definition remote_world :: world where
  "remote_world =
     default_world\<lparr>config := [(''api_endpoint'', JStr ''https://gateway.example''),
                               (''default_model'', JStr ''gpt-3.5-turbo''),
                               (''active_token'', JStr ''work'')],
                    tokens := [(''work'', JStr ''eyJ3b3JrIn0.e30.c2lnbmF0dXJl''),
                               (''home'', JStr ''eyJob21lIn0.e30.c2lnbmF0dXJl'')]\<rparr>"

text \<open>Three networks: nothing answers, everything answers 200, everything answers 403.\<close>

definition offline :: "request \<Rightarrow> reply" where
  "offline r = Raises ConnectError"

definition online :: "request \<Rightarrow> reply" where
  "online r = Reply 200 ''ok''"

definition rbac_gateway :: "request \<Rightarrow> reply" where
  "rbac_gateway r = Reply 403 ''{\"detail\": \"RBAC: access denied\"}''"

text \<open>
  The state in which \<^verbatim>\<open>send_message\<close> enters the streaming loop, the session in which
  \<^verbatim>\<open>main\<close> enters its loop, and gateways: one that refuses the connection, one that
  answers 500, one that answers 401 to the token \<^verbatim>\<open>work\<close> of \<open>remote_world\<close>
  and streams to every other, one whose stream breaks after its first line, one whose
  second line nests 2000 arrays, and three that stream to the end.
\<close>

definition fresh_stream :: "json \<Rightarrow> stream_state" where
  "fresh_stream model = \<lparr>emitted = [], full_response = [], actual_model = model\<rparr>"





definition plain_server :: "chat_request \<Rightarrow> chat_reply" where
  "plain_server req =
     ChatReply 200
       (map Line [''data: {\"choices\":[{\"delta\":{\"content\":\"Hi\"}}]}'',
                  ''data: {\"choices\":[{\"delta\":{\"content\":\" there\"}}]}'',
                  ''data: [DONE]''])
       None"




definition deep_line_server :: "chat_request \<Rightarrow> chat_reply" where
  "deep_line_server req =
     ChatReply 200
       (map Line [''data: {\"choices\":[{\"delta\":{\"content\":\"Hi\"}}]}'',
                  ''data: '' @ replicate 2000 CHR ''['',
                  ''data: {\"choices\":[{\"delta\":{\"content\":\" there\"}}]}'',
                  ''data: [DONE]''])
       None"

section \<open>Basic facts\<close>

lemma py_eq_JStr [simp]: "py_eq a (JStr s) = (a = JStr s)"
  by (cases a) auto

lemma lower_authorization [simp]: "lower ''authorization'' = ''authorization''"
  by (simp add: lower_def lower_char_def)

lemma bind_r_simps [simp]:
  "bind_r (Inl e) f = Inl e"
  "bind_r (Inr x) f = f x"
  by (simp_all add: bind_r_def)

lemma map_of_dict_set: "map_of (dict_set kvs k v) k' = (if k' = k then Some v else map_of kvs k')"
  by (induction kvs) auto

lemma set_dict_set: "(n, d) \<in> set (dict_set kvs k v) \<Longrightarrow> (n, d) = (k, v) \<or> (n, d) \<in> set kvs"
  by (induction kvs) (auto split: if_splits)

lemma keys_dict_del: "k \<notin> fst ` set (dict_del kvs k)"
  by (auto simp: dict_del_def)

lemma map_of_dict_del: "map_of (dict_del kvs k) k' = (if k' = k then None else map_of kvs k')"
  by (induction kvs) (auto simp: dict_del_def)

lemma write_file_fields [simp]:
  "config (snd (write_file p c w)) = config w"
  "tokens (snd (write_file p c w)) = tokens w"
  "apikeys (snd (write_file p c w)) = apikeys w"
  "requests (snd (write_file p c w)) = requests w"
  "writable (snd (write_file p c w)) = writable w"
  by (simp_all add: write_file_def)

lemma sync_apikeys_fields [simp]:
  "config (snd (sync_apikeys_to_server net w)) = config w"
  "tokens (snd (sync_apikeys_to_server net w)) = tokens w"
  "apikeys (snd (sync_apikeys_to_server net w)) = apikeys w"
  "disk (snd (sync_apikeys_to_server net w)) = disk w"
  by (simp_all add: sync_apikeys_to_server_def Let_def split: reply.splits)

lemma starts_with_append [simp]: "starts_with p (p @ s)"
  by (simp add: starts_with_def)

section \<open>The middleware rewrites a mapped key and nothing else\<close>









lemma bearer_split:
  "starts_with ''Bearer '' (''Bearer '' @ v)" "drop 7 (''Bearer '' @ v) = v"
  by (simp_all add: starts_with_def)


text \<open>
  What the rewrite branch does when \<^verbatim>\<open>str.encode\<close> raises: \<^verbatim>\<open>dispatch\<close> raises
  and \<^verbatim>\<open>call_next\<close> is not reached.
\<close>

lemma dispatch_encode_raises:
  assumes "headers_get hs ''authorization'' [] = ''Bearer '' @ v"
    and "starts_with ''sk-'' v"
    and "map_apikey_to_token fs v = (tv, reads)"
    and "tv \<noteq> JStr v"
    and "encode (''Bearer '' @ py_format fmt tv) = Inl e"
  shows "dispatch fmt encode fs hs call_next = (Inl e, reads)"
  using assms bearer_split[of v] by (simp add: dispatch_def)

text \<open>
  Claim C1 as stated fails where two entries hold the same key: the loop returns at the
  first of them that resolves. Here the entry \<^verbatim>\<open>b\<close> has the key of the request and
  its \<^verbatim>\<open>token_name\<close> names the existing token \<^verbatim>\<open>t2\<close> with value
  \<^verbatim>\<open>BBB\<close>, and the request is forwarded with \<^verbatim>\<open>Bearer AAA\<close>, the token of the
  entry \<^verbatim>\<open>a\<close> before it.
\<close>

theorem dispatch_shared_key_example:
  "apikeys_file shared_key_dir = Content (JObj
     [(''a'', JObj [(''key'', JStr ''sk-abc''), (''token_name'', JStr ''t1'')]),
      (''b'', JObj [(''key'', JStr ''sk-abc''), (''token_name'', JStr ''t2'')])]) \<and>
   tokens_file shared_key_dir = Content (JObj [(''t1'', JStr ''AAA''), (''t2'', JStr ''BBB'')]) \<and>
   dispatch (\<lambda>j. ''?'') utf8_encode shared_key_dir [(''authorization'', ''Bearer sk-abc'')] (\<lambda>h. h) =
     (Inr [(''authorization'', ''Bearer AAA'')], [ApikeysPath, TokensPath]) \<and>
   ''Bearer AAA'' \<noteq> ''Bearer BBB''"
  by (simp add: shared_key_dir_def dispatch_def headers_get_def starts_with_def
      map_apikey_to_token_def load_mappings_def load_files_def map_search_def dict_get_def
      py_format_def utf8_encode_def lower_def lower_char_def)



section \<open>Errors of the mapping fail open\<close>

text \<open>
  Claim C6. Let the request carry \<^verbatim>\<open>Authorization: Bearer v\<close> with \<open>v\<close>
  starting with \<^verbatim>\<open>sk-\<close>. If loading the mapping files raises, or the search
  through them raises, \<^verbatim>\<open>map_apikey_to_token\<close> returns \<open>v\<close> itself and the
  handler receives the request with its headers unchanged.
\<close>

theorem mapping_errors_fail_open:
  assumes hdr: "headers_get hs ''authorization'' [] = ''Bearer '' @ v"
    and sk: "starts_with ''sk-'' v"
    and err: "(\<exists>e. fst (load_files fs) = Inl e) \<or>
              (\<exists>e. map_search (fst (fst (load_mappings fs))) (snd (fst (load_mappings fs))) v = Inl e)"
  shows "fst (map_apikey_to_token fs v) = JStr v \<and>
         fst (dispatch fmt encode fs hs call_next) = Inr (call_next hs)"
proof -
  from sk have ne: "v \<noteq> []" by (auto simp: starts_with_def)
  note bearer = bearer_split[of v]
  have m: "fst (map_apikey_to_token fs v) = JStr v"
    using err
  proof
    assume "\<exists>e. fst (load_files fs) = Inl e"
    then obtain e where "fst (load_files fs) = Inl e" by blast
    then have "fst (load_mappings fs) = (JObj [], JObj [])"
      by (cases "load_files fs") (simp add: load_mappings_def)
    then show ?thesis using sk ne
      by (cases "load_mappings fs") (auto simp: map_apikey_to_token_def map_search_def)
  next
    assume "\<exists>e. map_search (fst (fst (load_mappings fs))) (snd (fst (load_mappings fs))) v = Inl e"
    then show ?thesis using sk ne
      by (cases "load_mappings fs") (auto simp: map_apikey_to_token_def)
  qed
  then have "fst (dispatch fmt encode fs hs call_next) = Inr (call_next hs)"
    using hdr bearer sk
    by (cases "map_apikey_to_token fs v") (simp add: dispatch_def)
  with m show ?thesis by simp
qed

theorem mapping_errors_fail_open_witness:
  "fst (dispatch (\<lambda>j. ''?'') utf8_encode
         \<lparr>apikeys_file = Unreadable JSONDecodeError, tokens_file = Content (JObj [(''default'', JStr ''eyJtoken'')])\<rparr>
         [(''authorization'', ''Bearer sk-abc'')] (\<lambda>h. h))
     = Inr [(''authorization'', ''Bearer sk-abc'')]
   \<and> fst (dispatch (\<lambda>j. ''?'') utf8_encode (example_auth_dir\<lparr>tokens_file := Unreadable OSError\<rparr>)
         [(''authorization'', ''Bearer sk-abc'')] (\<lambda>h. h))
     = Inr [(''authorization'', ''Bearer sk-abc'')]
   \<and> map_search (JObj [(''my-app'', JObj [(''key'', JStr ''sk-abc''), (''token_name'', JArr [])])])
        (JObj [(''default'', JStr ''eyJtoken'')]) ''sk-abc'' = Inl TypeError
   \<and> fst (dispatch (\<lambda>j. ''?'') utf8_encode
         \<lparr>apikeys_file = Content (JObj [(''my-app'', JObj [(''key'', JStr ''sk-abc''), (''token_name'', JArr [])])]),
          tokens_file = Content (JObj [(''default'', JStr ''eyJtoken'')])\<rparr>
         [(''authorization'', ''Bearer sk-abc'')] (\<lambda>h. h))
     = Inr [(''authorization'', ''Bearer sk-abc'')]
   \<and> fst (dispatch (\<lambda>j. ''?'') utf8_encode (example_auth_dir\<lparr>tokens_file := Content JNull\<rparr>)
         [(''authorization'', ''Bearer sk-abc'')] (\<lambda>h. h))
     = Inr [(''authorization'', ''Bearer sk-abc'')]"
proof -
  let ?hs = "[(''authorization'', ''Bearer sk-abc'')]"
  let ?fmt = "\<lambda>j::json. ''?''"
  have hdr: "headers_get ?hs ''authorization'' [] = ''Bearer '' @ ''sk-abc''"
    by (simp add: headers_get_def)
  have sk: "starts_with ''sk-'' ''sk-abc''"
    by (simp add: starts_with_def)
  note T = mapping_errors_fail_open[OF hdr sk, where fmt = ?fmt and encode = utf8_encode and call_next = "\<lambda>h. h"]
  have a: "fst (dispatch ?fmt utf8_encode \<lparr>apikeys_file = Unreadable JSONDecodeError,
             tokens_file = Content (JObj [(''default'', JStr ''eyJtoken'')])\<rparr> ?hs (\<lambda>h. h)) = Inr ?hs"
    by (rule T[THEN conjunct2]) (simp add: load_files_def)
  have b: "fst (dispatch ?fmt utf8_encode (example_auth_dir\<lparr>tokens_file := Unreadable OSError\<rparr>) ?hs (\<lambda>h. h)) = Inr ?hs"
    by (rule T[THEN conjunct2]) (simp add: load_files_def example_auth_dir_def)
  have s: "map_search (JObj [(''my-app'', JObj [(''key'', JStr ''sk-abc''), (''token_name'', JArr [])])])
        (JObj [(''default'', JStr ''eyJtoken'')]) ''sk-abc'' = Inl TypeError"
    by (simp add: map_search_def dict_get_def)
  have c: "fst (dispatch ?fmt utf8_encode
         \<lparr>apikeys_file = Content (JObj [(''my-app'', JObj [(''key'', JStr ''sk-abc''), (''token_name'', JArr [])])]),
          tokens_file = Content (JObj [(''default'', JStr ''eyJtoken'')])\<rparr> ?hs (\<lambda>h. h)) = Inr ?hs"
    by (rule T[THEN conjunct2]) (simp add: load_mappings_def load_files_def s)
  have d: "fst (dispatch ?fmt utf8_encode (example_auth_dir\<lparr>tokens_file := Content JNull\<rparr>) ?hs (\<lambda>h. h)) = Inr ?hs"
    by (rule T[THEN conjunct2])
       (simp add: load_mappings_def load_files_def example_auth_dir_def map_search_def)
  from a b s c d show ?thesis by blast
qed

section \<open>API keys generated while no token is active\<close>

lemma generate_apikey_apikeys:
  "apikeys (snd (generate_apikey net random_part now name sync w)) =
     dict_set (apikeys w) name
       (JObj [(''key'', JStr (''sk-'' @ random_part)), (''created'', JStr now),
              (''token_name'', dict_get (config w) ''active_token'' (JStr ''auto''))])"
proof -
  let ?e = "JObj [(''key'', JStr (''sk-'' @ random_part)), (''created'', JStr now),
              (''token_name'', dict_get (config w) ''active_token'' (JStr ''auto''))]"
  let ?w1 = "w\<lparr>apikeys := dict_set (apikeys w) name ?e\<rparr>"
  have "apikeys (snd (save_apikeys ?w1)) = dict_set (apikeys w) name ?e"
    by (simp add: save_apikeys_def)
  then show ?thesis
    by (cases "save_apikeys ?w1")
       (auto simp: generate_apikey_def Let_def split: sum.splits)
qed

lemma find_apikey_null_name:
  assumes "\<forall>(n, d) \<in> set items. \<not> matches_key d v \<or>
             (\<exists>kvs. d = JObj kvs \<and> map_of kvs ''token_name'' = Some JNull)"
  shows "find_apikey items (JObj toks) v = Inr None"
  using assms by (induction items) (auto simp: dict_get_def)

text \<open>
  Claim C4. Let \<^verbatim>\<open>generate_apikey\<close> run while the configuration holds
  \<^verbatim>\<open>active_token\<close> with the value \<^verbatim>\<open>None\<close>. The entry it stores has
  \<^verbatim>\<open>token_name\<close> null. For every token collection, the middleware's loop on that
  entry takes neither the name-lookup branch nor the \<^verbatim>\<open>'auto'\<close> branch, and
  \<^verbatim>\<open>map_apikey_to_token\<close> on the store's API keys returns the key unchanged. The
  generated key is fresh: no entry of the store already holds it.
\<close>

theorem null_token_name_never_resolves:
  assumes null: "map_of (config w) ''active_token'' = Some JNull"
    and fresh: "\<forall>(n, d) \<in> set (apikeys w). \<not> matches_key d (''sk-'' @ random_part)"
  shows "map_of (apikeys (snd (generate_apikey net random_part now name sync w))) name =
           Some (JObj [(''key'', JStr (''sk-'' @ random_part)), (''created'', JStr now),
                       (''token_name'', JNull)]) \<and>
         find_apikey [(name, JObj [(''key'', JStr (''sk-'' @ random_part)), (''created'', JStr now),
                       (''token_name'', JNull)])] (JObj toks) (''sk-'' @ random_part) = Inr None \<and>
         map_apikey_to_token
           \<lparr>apikeys_file = Content (JObj (apikeys (snd (generate_apikey net random_part now name sync w)))),
            tokens_file = Content (JObj toks)\<rparr> (''sk-'' @ random_part)
           = (JStr (''sk-'' @ random_part), [ApikeysPath, TokensPath])"
proof -
  let ?key = "''sk-'' @ random_part"
  let ?e = "JObj [(''key'', JStr ?key), (''created'', JStr now), (''token_name'', JNull)]"
  let ?ks = "apikeys (snd (generate_apikey net random_part now name sync w))"
  from null have tn: "dict_get (config w) ''active_token'' (JStr ''auto'') = JNull"
    by (simp add: dict_get_def)
  have ks: "?ks = dict_set (apikeys w) name ?e"
    by (simp add: generate_apikey_apikeys tn)
  have 1: "map_of ?ks name = Some ?e"
    by (simp add: ks map_of_dict_set)
  have 2: "find_apikey [(name, ?e)] (JObj toks) ?key = Inr None"
    by (simp add: dict_get_def)
  have "\<forall>(n, d) \<in> set ?ks. \<not> matches_key d ?key \<or>
             (\<exists>kvs. d = JObj kvs \<and> map_of kvs ''token_name'' = Some JNull)"
    unfolding ks using fresh by (auto dest!: set_dict_set)
  then have "find_apikey ?ks (JObj toks) ?key = Inr None"
    by (rule find_apikey_null_name)
  then have 3: "map_apikey_to_token \<lparr>apikeys_file = Content (JObj ?ks), tokens_file = Content (JObj toks)\<rparr> ?key
        = (JStr ?key, [ApikeysPath, TokensPath])"
    by (simp add: map_apikey_to_token_def load_mappings_def load_files_def map_search_def starts_with_def)
  from 1 2 3 show ?thesis by simp
qed


theorem null_token_name_never_resolves_witness:
  "map_of (config unused_token_world) ''active_token'' = Some JNull \<and>
   map_of (apikeys (snd (generate_apikey offline ''q7Zp2LxA9cVb4NmK8sDf1GhJ3kQw5ErT6yUi0OpLaSdFgHjK''
        ''2025-01-01T00:00:00'' ''my-app'' True unused_token_world))) ''my-app'' =
     Some (JObj [(''key'', JStr ''sk-q7Zp2LxA9cVb4NmK8sDf1GhJ3kQw5ErT6yUi0OpLaSdFgHjK''),
                 (''created'', JStr ''2025-01-01T00:00:00''), (''token_name'', JNull)]) \<and>
   map_apikey_to_token
     \<lparr>apikeys_file = Content (JObj (apikeys (snd (generate_apikey offline
          ''q7Zp2LxA9cVb4NmK8sDf1GhJ3kQw5ErT6yUi0OpLaSdFgHjK'' ''2025-01-01T00:00:00'' ''my-app'' True
          unused_token_world)))),
      tokens_file = Content (JObj (tokens unused_token_world))\<rparr>
     ''sk-q7Zp2LxA9cVb4NmK8sDf1GhJ3kQw5ErT6yUi0OpLaSdFgHjK''
   = (JStr ''sk-q7Zp2LxA9cVb4NmK8sDf1GhJ3kQw5ErT6yUi0OpLaSdFgHjK'', [ApikeysPath, TokensPath])"
proof -
  have null: "map_of (config unused_token_world) ''active_token'' = Some JNull"
    by (simp add: unused_token_world_def default_world_def)
  have fresh: "\<forall>(n, d) \<in> set (apikeys unused_token_world).
      \<not> matches_key d (''sk-'' @ ''q7Zp2LxA9cVb4NmK8sDf1GhJ3kQw5ErT6yUi0OpLaSdFgHjK'')"
    by (simp add: unused_token_world_def default_world_def)
  from null_token_name_never_resolves[OF null fresh, of offline "''2025-01-01T00:00:00''"
      "''my-app''" True "tokens unused_token_world"] null
  show ?thesis by simp
qed

text \<open>
  Claim C3, at the input where the code departs from it: one token is stored, none has been
  made active (\<^verbatim>\<open>active_token\<close> is \<^verbatim>\<open>None\<close>, as after a first start), so
  \<^verbatim>\<open>get_active_token\<close> falls back to the stored token and the interactive command
  lets the user generate a key. The entry records null as \<^verbatim>\<open>token_name\<close>, not the
  string \<^verbatim>\<open>"auto"\<close>: \<^verbatim>\<open>config.get('active_token', 'auto')\<close> takes its default
  only when the key is missing.
\<close>

theorem generate_apikey_records_null:
  "dict_get (config unused_token_world) ''active_token'' JNull = JNull \<and>
   get_active_token unused_token_world = Inr (JStr ''eyJhbGciOiJSUzI1NiJ9.e30.c2ln'') \<and>
   fst (generate_apikey offline ''q7Zp2LxA9cVb4NmK8sDf1GhJ3kQw5ErT6yUi0OpLaSdFgHjK''
          ''2025-01-01T00:00:00'' ''my-app'' True unused_token_world) =
     Inr ''sk-q7Zp2LxA9cVb4NmK8sDf1GhJ3kQw5ErT6yUi0OpLaSdFgHjK'' \<and>
   bind_r (py_getitem (JObj (apikeys (snd (generate_apikey offline
             ''q7Zp2LxA9cVb4NmK8sDf1GhJ3kQw5ErT6yUi0OpLaSdFgHjK'' ''2025-01-01T00:00:00'' ''my-app''
             True unused_token_world)))) (JStr ''my-app''))
       (\<lambda>entry. py_getitem entry (JStr ''token_name'')) = Inr JNull \<and>
   JNull \<noteq> JStr ''auto''"
  by (simp add: get_active_token_def unused_token_world_def generate_apikey_def default_world_def
      save_apikeys_def write_file_def sync_apikeys_to_server_def dict_get_def py_index_def
      Let_def offline_def)

section \<open>Adding and removing tokens\<close>

text \<open>
  Claim C8, at the input where the code departs from it: the token log cannot be written.
  \<^verbatim>\<open>add_token\<close> has upserted the token and written the tokens file, and then the
  exception of the append leaves \<^verbatim>\<open>add_token\<close>: nothing catches it, and the remote
  sync that a successful call makes is not reached.
\<close>

theorem add_token_log_failure_raises:
  "add_token online ''new'' ''eyJuZXcifQ.e30.c2lnbmF0dXJl'' True
       (remote_world\<lparr>writable := (\<lambda>p. p \<noteq> TokenLog)\<rparr>) =
     (Inl OSError,
      remote_world
        \<lparr>tokens := tokens remote_world @ [(''new'', JStr ''eyJuZXcifQ.e30.c2lnbmF0dXJl'')],
         disk := (disk remote_world)(TokensFile \<mapsto>
                   Document (JObj (tokens remote_world @ [(''new'', JStr ''eyJuZXcifQ.e30.c2lnbmF0dXJl'')]))),
         writable := (\<lambda>p. p \<noteq> TokenLog)\<rparr>) \<and>
   fst (add_token online ''new'' ''eyJuZXcifQ.e30.c2lnbmF0dXJl'' True remote_world) = Inr () \<and>
   requests (snd (add_token online ''new'' ''eyJuZXcifQ.e30.c2lnbmF0dXJl'' True remote_world)) =
     [PostSyncTokens (JStr ''https://gateway.example'')
        (tokens remote_world @ [(''new'', JStr ''eyJuZXcifQ.e30.c2lnbmF0dXJl'')])]"
  by (simp add: add_token_def save_tokens_def append_token_log_def write_file_def
      sync_tokens_to_server_def remote_world_def default_world_def online_def dict_get_def Let_def)

lemma get_active_token_stale:
  assumes "dict_get (config w) ''active_token'' JNull = JStr name"
    and "name \<notin> fst ` set (tokens w)"
  shows "get_active_token w = Inr (case tokens w of [] \<Rightarrow> JNull | (k, v) # rest \<Rightarrow> v)"
  using assms
  by (cases "tokens w") (auto simp: get_active_token_def py_index_def Let_def)

text \<open>
  Claim C10. \<^verbatim>\<open>remove_token(n)\<close> returns false and changes nothing when \<open>n\<close> is
  absent. When \<open>n\<close> is present it removes exactly the entry \<open>n\<close>, leaves the
  configuration as it is, and, the tokens file being writable, writes the file and returns
  true. After the removal of the active token the reference still holds \<open>n\<close>, and
  \<^verbatim>\<open>get_active_token()\<close> returns the first remaining token value, or \<^verbatim>\<open>None\<close>
  when none remains.
\<close>

theorem remove_token_spec:
  "(name \<notin> fst ` set (tokens w) \<longrightarrow> remove_token name w = (Inr False, w)) \<and>
   (name \<in> fst ` set (tokens w) \<longrightarrow>
      tokens (snd (remove_token name w)) = filter (\<lambda>(k, v). k \<noteq> name) (tokens w) \<and>
      map_of (tokens (snd (remove_token name w))) name = None \<and>
      (\<forall>k. k \<noteq> name \<longrightarrow> map_of (tokens (snd (remove_token name w))) k = map_of (tokens w) k) \<and>
      config (snd (remove_token name w)) = config w \<and>
      apikeys (snd (remove_token name w)) = apikeys w \<and>
      (writable w TokensFile \<longrightarrow>
         fst (remove_token name w) = Inr True \<and>
         disk (snd (remove_token name w)) =
           (disk w)(TokensFile \<mapsto> Document (JObj (filter (\<lambda>(k, v). k \<noteq> name) (tokens w))))) \<and>
      (dict_get (config w) ''active_token'' JNull = JStr name \<longrightarrow>
         dict_get (config (snd (remove_token name w))) ''active_token'' JNull = JStr name \<and>
         get_active_token (snd (remove_token name w)) =
           Inr (case tokens (snd (remove_token name w)) of [] \<Rightarrow> JNull | (k, v) # rest \<Rightarrow> v)))"
proof (intro conjI impI)
  show "remove_token name w = (Inr False, w)" if "name \<notin> fst ` set (tokens w)"
    using that by (simp add: remove_token_def)
next
  assume p: "name \<in> fst ` set (tokens w)"
  let ?w' = "snd (remove_token name w)"
  have w': "?w' = snd (save_tokens (w\<lparr>tokens := dict_del (tokens w) name\<rparr>))"
    using p by (simp add: remove_token_def split: prod.splits sum.splits)
  show t: "tokens ?w' = filter (\<lambda>(k, v). k \<noteq> name) (tokens w)"
    by (simp add: w' save_tokens_def dict_del_def)
  show c: "config ?w' = config w" by (simp add: w' save_tokens_def)
  show "apikeys ?w' = apikeys w" by (simp add: w' save_tokens_def)
  have t': "tokens ?w' = dict_del (tokens w) name" by (simp add: t dict_del_def)
  show "map_of (tokens ?w') name = None" by (simp add: t' map_of_dict_del)
  show "\<forall>k. k \<noteq> name \<longrightarrow> map_of (tokens ?w') k = map_of (tokens w) k"
    by (simp add: t' map_of_dict_del)
  {
    assume "writable w TokensFile"
    then show "fst (remove_token name w) = Inr True"
      using p by (simp add: remove_token_def save_tokens_def write_file_def)
    show "disk ?w' = (disk w)(TokensFile \<mapsto> Document (JObj (filter (\<lambda>(k, v). k \<noteq> name) (tokens w))))"
      using \<open>writable w TokensFile\<close> by (simp add: w' save_tokens_def write_file_def dict_del_def)
  }
  {
    assume a: "dict_get (config w) ''active_token'' JNull = JStr name"
    then show a': "dict_get (config ?w') ''active_token'' JNull = JStr name" by (simp add: c)
    have "name \<notin> fst ` set (tokens ?w')" by (simp add: t' keys_dict_del)
    from get_active_token_stale[OF a' this]
    show "get_active_token ?w' = Inr (case tokens ?w' of [] \<Rightarrow> JNull | (k, v) # rest \<Rightarrow> v)" .
  }
qed

theorem remove_token_spec_witness:
  "remove_token ''work'' default_world = (Inr False, default_world) \<and>
   fst (remove_token ''work'' remote_world) = Inr True \<and>
   tokens (snd (remove_token ''work'' remote_world)) = [(''home'', JStr ''eyJob21lIn0.e30.c2lnbmF0dXJl'')] \<and>
   dict_get (config (snd (remove_token ''work'' remote_world))) ''active_token'' JNull = JStr ''work'' \<and>
   get_active_token (snd (remove_token ''work'' remote_world)) = Inr (JStr ''eyJob21lIn0.e30.c2lnbmF0dXJl'') \<and>
   get_active_token (snd (remove_token ''work''
      (remote_world\<lparr>tokens := [(''work'', JStr ''eyJ3b3JrIn0.e30.c2lnbmF0dXJl'')]\<rparr>))) = Inr JNull"
proof -
  have a: "''work'' \<notin> fst ` set (tokens default_world)"
    by (simp add: default_world_def)
  have b: "''work'' \<in> fst ` set (tokens remote_world)" "writable remote_world TokensFile"
    "dict_get (config remote_world) ''active_token'' JNull = JStr ''work''"
    by (simp_all add: remote_world_def default_world_def dict_get_def)
  let ?w1 = "remote_world\<lparr>tokens := [(''work'', JStr ''eyJ3b3JrIn0.e30.c2lnbmF0dXJl'')]\<rparr>"
  have c: "''work'' \<in> fst ` set (tokens ?w1)"
    "dict_get (config ?w1) ''active_token'' JNull = JStr ''work''"
    by (simp_all add: remote_world_def default_world_def dict_get_def)
  from remove_token_spec[of "''work''" default_world] a
  have 1: "remove_token ''work'' default_world = (Inr False, default_world)" by blast
  from remove_token_spec[of "''work''" remote_world] b
  have 2: "fst (remove_token ''work'' remote_world) = Inr True"
    "tokens (snd (remove_token ''work'' remote_world)) = filter (\<lambda>(k, v). k \<noteq> ''work'') (tokens remote_world)"
    "dict_get (config (snd (remove_token ''work'' remote_world))) ''active_token'' JNull = JStr ''work''"
    "get_active_token (snd (remove_token ''work'' remote_world)) =
       Inr (case tokens (snd (remove_token ''work'' remote_world)) of [] \<Rightarrow> JNull | (k, v) # rest \<Rightarrow> v)"
    by blast+
  from remove_token_spec[of "''work''" ?w1] c
  have 3: "tokens (snd (remove_token ''work'' ?w1)) = filter (\<lambda>(k, v). k \<noteq> ''work'') (tokens ?w1)"
    "get_active_token (snd (remove_token ''work'' ?w1)) =
       Inr (case tokens (snd (remove_token ''work'' ?w1)) of [] \<Rightarrow> JNull | (k, v) # rest \<Rightarrow> v)"
    by blast+
  have t2: "tokens (snd (remove_token ''work'' remote_world)) = [(''home'', JStr ''eyJob21lIn0.e30.c2lnbmF0dXJl'')]"
    unfolding 2(2) by (simp add: remote_world_def default_world_def)
  have t3: "tokens (snd (remove_token ''work'' ?w1)) = []"
    unfolding 3(1) by simp
  have g2: "get_active_token (snd (remove_token ''work'' remote_world)) =
      Inr (JStr ''eyJob21lIn0.e30.c2lnbmF0dXJl'')"
    using 2(4) unfolding t2 by simp
  have g3: "get_active_token (snd (remove_token ''work'' ?w1)) = Inr JNull"
    using 3(2) unfolding t3 by simp
  from 1 2(1) t2 2(3) g2 g3 show ?thesis by blast
qed

section \<open>The endpoint is switched only after a confirming probe\<close>

text \<open>
  Claim C9. A candidate that starts with neither \<^verbatim>\<open>http://\<close> nor
  \<^verbatim>\<open>https://\<close> is rejected with the world unchanged: no network call, nothing
  written. For every candidate, if the switch reports success, or the files or the
  configuration differ afterwards, then the health check answered 200, or it answered 403 and
  the model listing answered 403 with \<^verbatim>\<open>RBAC\<close> in its text. A reported success has
  written the normalised endpoint to the configuration file.
\<close>

theorem switch_endpoint_spec:
  "(\<not> starts_with ''http://'' e \<and> \<not> starts_with ''https://'' e \<longrightarrow>
      switch_endpoint net e w = (False, w)) \<and>
   (fst (switch_endpoint net e w) \<or>
    disk (snd (switch_endpoint net e w)) \<noteq> disk w \<or>
    config (snd (switch_endpoint net e w)) \<noteq> config w \<longrightarrow>
      (starts_with ''http://'' e \<or> starts_with ''https://'' e) \<and>
      ((\<exists>text. net (GetHealth e) = Reply 200 text) \<or>
       (\<exists>text fallback_text.
          net (GetHealth e) = Reply 403 text \<and>
          net (GetModels e) = Reply 403 fallback_text \<and>
          is_substring ''RBAC'' fallback_text))) \<and>
   (fst (switch_endpoint net e w) \<longrightarrow>
      config (snd (switch_endpoint net e w)) =
        dict_set (config w) ''api_endpoint'' (JStr (normalize_endpoint e)) \<and>
      disk (snd (switch_endpoint net e w)) =
        (disk w)(ConfigFile \<mapsto> Document (JObj (config (snd (switch_endpoint net e w))))))"
proof (intro conjI impI)
  show "switch_endpoint net e w = (False, w)"
    if "\<not> starts_with ''http://'' e \<and> \<not> starts_with ''https://'' e"
    using that by (simp add: switch_endpoint_def)
next
  assume ch: "fst (switch_endpoint net e w) \<or>
    disk (snd (switch_endpoint net e w)) \<noteq> disk w \<or>
    config (snd (switch_endpoint net e w)) \<noteq> config w"
  show scheme: "starts_with ''http://'' e \<or> starts_with ''https://'' e"
  proof (rule ccontr)
    assume "\<not> (starts_with ''http://'' e \<or> starts_with ''https://'' e)"
    then have "switch_endpoint net e w = (False, w)" by (simp add: switch_endpoint_def)
    with ch show False by simp
  qed
  then have sch: "(\<not> starts_with ''http://'' e \<and> \<not> starts_with ''https://'' e) = False" by simp
  show "(\<exists>text. net (GetHealth e) = Reply 200 text) \<or>
       (\<exists>text fallback_text.
          net (GetHealth e) = Reply 403 text \<and>
          net (GetModels e) = Reply 403 fallback_text \<and>
          is_substring ''RBAC'' fallback_text)"
  proof (cases "net (GetHealth e)")
    case (Raises x)
    with ch show ?thesis by (simp add: switch_endpoint_def Let_def sch)
  next
    case health: (Reply status body)
    show ?thesis
    proof (cases "status = 200")
      case True
      with health show ?thesis by simp
    next
      case n200: False
      show ?thesis
      proof (cases "status = 403")
        case False
        with ch health n200 show ?thesis by (simp add: switch_endpoint_def Let_def sch)
      next
        case s403: True
        show ?thesis
        proof (cases "net (GetModels e)")
          case (Raises x)
          with ch health s403 show ?thesis by (simp add: switch_endpoint_def Let_def sch)
        next
          case fb: (Reply fstatus ftext)
          show ?thesis
          proof (cases "fstatus = 403 \<and> is_substring ''RBAC'' ftext")
            case True
            with health s403 fb show ?thesis by simp
          next
            case False
            with ch health s403 fb show ?thesis
              by (auto simp: switch_endpoint_def Let_def sch)
          qed
        qed
      qed
    qed
  qed
next
  assume ok: "fst (switch_endpoint net e w)"
  then have ne: "e \<noteq> []" by (auto simp: switch_endpoint_def starts_with_def)
  have set_ok: "fst (config_set ''api_endpoint'' e w') = Inr () \<Longrightarrow>
      config (snd (config_set ''api_endpoint'' e w')) =
        dict_set (config w') ''api_endpoint'' (JStr (normalize_endpoint e)) \<and>
      disk (snd (config_set ''api_endpoint'' e w')) =
        (disk w')(ConfigFile \<mapsto> Document (JObj (dict_set (config w') ''api_endpoint'' (JStr (normalize_endpoint e)))))"
    for w'
    using ne by (auto simp: config_set_def save_config_def write_file_def Let_def split: if_splits)
  let ?w1 = "w\<lparr>requests := requests w @ [GetHealth e]\<rparr>"
  let ?w2 = "?w1\<lparr>requests := requests ?w1 @ [GetModels e]\<rparr>"
  from ok have "(snd (switch_endpoint net e w) = snd (config_set ''api_endpoint'' e ?w1) \<and>
                 fst (config_set ''api_endpoint'' e ?w1) = Inr ()) \<or>
                (snd (switch_endpoint net e w) = snd (config_set ''api_endpoint'' e ?w2) \<and>
                 fst (config_set ''api_endpoint'' e ?w2) = Inr ())"
    by (auto simp: switch_endpoint_def Let_def split: if_splits reply.splits prod.splits sum.splits)
  then show "config (snd (switch_endpoint net e w)) =
        dict_set (config w) ''api_endpoint'' (JStr (normalize_endpoint e))"
    and "disk (snd (switch_endpoint net e w)) =
        (disk w)(ConfigFile \<mapsto> Document (JObj (config (snd (switch_endpoint net e w)))))"
    using set_ok[of ?w1] set_ok[of ?w2] by auto
qed

theorem switch_endpoint_spec_witness:
  "switch_endpoint online ''localhost:5005'' default_world = (False, default_world) \<and>
   requests (snd (switch_endpoint online ''localhost:5005'' default_world)) = [] \<and>
   switch_endpoint online ''https://gateway.example/'' default_world =
     (True, default_world
        \<lparr>config := [(''api_endpoint'', JStr ''https://gateway.example''),
                    (''default_model'', JStr ''gpt-3.5-turbo''), (''active_token'', JNull)],
         disk := (disk default_world)(ConfigFile \<mapsto> Document (JObj
                   [(''api_endpoint'', JStr ''https://gateway.example''),
                    (''default_model'', JStr ''gpt-3.5-turbo''), (''active_token'', JNull)])),
         requests := [GetHealth ''https://gateway.example/'']\<rparr>) \<and>
   fst (switch_endpoint rbac_gateway ''http://10.0.0.5:5005'' default_world) \<and>
   requests (snd (switch_endpoint rbac_gateway ''http://10.0.0.5:5005'' default_world)) =
     [GetHealth ''http://10.0.0.5:5005'', GetModels ''http://10.0.0.5:5005''] \<and>
   switch_endpoint offline ''http://10.0.0.5:5005'' default_world =
     (False, default_world\<lparr>requests := [GetHealth ''http://10.0.0.5:5005'']\<rparr>)"
proof -
  have a: "\<not> starts_with ''http://'' ''localhost:5005'' \<and> \<not> starts_with ''https://'' ''localhost:5005''"
    by (simp add: starts_with_def)
  from switch_endpoint_spec[of "''localhost:5005''" online default_world] a
  have 1: "switch_endpoint online ''localhost:5005'' default_world = (False, default_world)"
    by blast
  have 2: "requests (snd (switch_endpoint online ''localhost:5005'' default_world)) = []"
    unfolding 1 by (simp add: default_world_def)
  have 3: "switch_endpoint online ''https://gateway.example/'' default_world =
     (True, default_world
        \<lparr>config := [(''api_endpoint'', JStr ''https://gateway.example''),
                    (''default_model'', JStr ''gpt-3.5-turbo''), (''active_token'', JNull)],
         disk := (disk default_world)(ConfigFile \<mapsto> Document (JObj
                   [(''api_endpoint'', JStr ''https://gateway.example''),
                    (''default_model'', JStr ''gpt-3.5-turbo''), (''active_token'', JNull)])),
         requests := [GetHealth ''https://gateway.example/'']\<rparr>)"
    by (simp add: switch_endpoint_def starts_with_def online_def config_set_def save_config_def
        write_file_def normalize_endpoint_def default_world_def Let_def)
  have 4: "fst (switch_endpoint rbac_gateway ''http://10.0.0.5:5005'' default_world)"
    "requests (snd (switch_endpoint rbac_gateway ''http://10.0.0.5:5005'' default_world)) =
     [GetHealth ''http://10.0.0.5:5005'', GetModels ''http://10.0.0.5:5005'']"
    by (simp_all add: switch_endpoint_def starts_with_def rbac_gateway_def config_set_def
        save_config_def write_file_def normalize_endpoint_def default_world_def Let_def)
  have 5: "switch_endpoint offline ''http://10.0.0.5:5005'' default_world =
     (False, default_world\<lparr>requests := [GetHealth ''http://10.0.0.5:5005'']\<rparr>)"
    by (simp add: switch_endpoint_def starts_with_def offline_def default_world_def Let_def)
  from 1 2 3 4 5 show ?thesis by blast
qed

section \<open>The streaming reader\<close>

lemma parse_hi:
  "cpython_loads ''{\"choices\":[{\"delta\":{\"content\":\"Hi\"}}]}'' =
     Inr (JObj [(''choices'', JArr [JObj [(''delta'', JObj [(''content'', JStr ''Hi'')])]])])"
  by code_simp

lemma parse_there:
  "cpython_loads ''{\"choices\":[{\"delta\":{\"content\":\" there\"}}]}'' =
     Inr (JObj [(''choices'', JArr [JObj [(''delta'', JObj [(''content'', JStr '' there'')])]])])"
  by code_simp

text \<open>Arrays opened deeper than the limit: the parser raises before it sees the text end.\<close>

lemma parse_value_deep:
  "depth < n \<Longrightarrow> 2 * depth + 1 \<le> fuel \<Longrightarrow>
   parse_value lim fuel depth (replicate n CHR ''['') = Inl RecursionError"
proof (induction depth arbitrary: n fuel)
  case 0
  then obtain n' fuel' where "n = Suc n'" "fuel = Suc fuel'"
    by (cases n; cases fuel) auto
  then show ?case by simp
next
  case (Suc depth)
  define n' fuel' where "n' = n - 2" and "fuel' = fuel - 2"
  with Suc.prems have n: "n = Suc (Suc n')" and f: "fuel = Suc (Suc fuel')"
    by simp_all
  from Suc.prems n f have "depth < Suc n'" "2 * depth + 1 \<le> fuel'" by simp_all
  from Suc.IH[OF this]
  have "parse_value lim fuel' depth (replicate (Suc n') CHR ''['') = Inl RecursionError" .
  then show ?case using n f by (simp add: skip_ws_def is_ws_def)
qed

lemma parse_deep: "cpython_loads (replicate 2000 CHR ''['') = Inl RecursionError"
proof -
  have "skip_ws (replicate 2000 CHR ''['') = replicate 2000 CHR ''[''"
    by (simp add: skip_ws_def is_ws_def dropWhile_eq_self_iff)
  moreover have "parse_value cpython_limits (2 * 2000 + 2) 1000 (replicate 2000 CHR ''['') =
      Inl RecursionError"
    by (rule parse_value_deep) simp_all
  ultimately show ?thesis
    by (simp add: cpython_loads_def json_loads_def cpython_limits_def)
qed

lemma deep_not_done: "replicate 2000 CHR ''['' \<noteq> ''[DONE]''"
proof
  assume "replicate 2000 CHR ''['' = ''[DONE]''"
  then have "length (replicate 2000 CHR ''['') = length ''[DONE]''" by (rule arg_cong)
  then show False by simp
qed

lemma data_line:
  "starts_with ''data: '' (''data: '' @ s)" "drop 6 (''data: '' @ s) = s"
  by (simp_all add: starts_with_def)

lemma process_delta:
  "s \<noteq> [] \<Longrightarrow>
   process_chunk model (JObj [(''choices'', JArr [JObj [(''delta'', JObj [(''content'', JStr s)])]])]) st =
     (Inr (), st\<lparr>emitted := emitted st @ [JStr s], full_response := full_response st @ s\<rparr>)"
  by (simp add: process_chunk_def py_index_def)


text \<open>
  A line on which \<^verbatim>\<open>json.loads\<close> raises anything but \<^verbatim>\<open>JSONDecodeError\<close> ends the
  read with that exception.
\<close>

lemma read_lines_loads_raises:
  assumes "loads payload = Inl e" and "e \<noteq> JSONDecodeError" and "payload \<noteq> ''[DONE]''"
  shows "read_lines loads model (Line (''data: '' @ payload) # post) st = (Inl e, st)"
  using assms data_line[of payload] by simp


text \<open>
  Claim C2 as stated fails: the loop skips a line only when \<^verbatim>\<open>json.loads\<close> raises
  \<^verbatim>\<open>JSONDecodeError\<close>. The text of 2000 opening brackets is not valid JSON, and on it
  \<^verbatim>\<open>json.loads\<close> raises \<^verbatim>\<open>RecursionError\<close>; between the two lines of the
  example it ends the read after \<^verbatim>\<open>"Hi"\<close>, and \<^verbatim>\<open>send_message\<close> returns no
  text where it returns \<^verbatim>\<open>"Hi there"\<close> without that line.
\<close>

theorem deep_payload_aborts_stream:
  "cpython_loads (replicate 2000 CHR ''['') = Inl RecursionError \<and>
   read_lines cpython_loads (JStr ''gpt-4o'')
     (map Line [''data: {\"choices\":[{\"delta\":{\"content\":\"Hi\"}}]}'',
                ''data: '' @ replicate 2000 CHR ''['',
                ''data: {\"choices\":[{\"delta\":{\"content\":\" there\"}}]}'',
                ''data: [DONE]''])
     (fresh_stream (JStr ''gpt-4o'')) =
     (Inl RecursionError,
      \<lparr>emitted = [JStr ''Hi''], full_response = ''Hi'', actual_model = JStr ''gpt-4o''\<rparr>) \<and>
   read_lines cpython_loads (JStr ''gpt-4o'')
     (map Line [''data: {\"choices\":[{\"delta\":{\"content\":\"Hi\"}}]}'',
                ''data: {\"choices\":[{\"delta\":{\"content\":\" there\"}}]}'',
                ''data: [DONE]''])
     (fresh_stream (JStr ''gpt-4o'')) =
     (Inr (),
      \<lparr>emitted = [JStr ''Hi'', JStr '' there''], full_response = ''Hi there'',
       actual_model = JStr ''gpt-4o''\<rparr>) \<and>
   send_message cpython_loads deep_line_server remote_world (JStr ''gpt-4o'')
       [(''user'', JStr ''Hello'')] True =
     Inr ((JNull, JStr ''gpt-4o''), [JStr ''Hi'']) \<and>
   send_message cpython_loads plain_server remote_world (JStr ''gpt-4o'')
       [(''user'', JStr ''Hello'')] True =
     Inr ((JStr ''Hi there'', JStr ''gpt-4o''), [JStr ''Hi'', JStr '' there''])"
proof -
  let ?hi = "''data: {\"choices\":[{\"delta\":{\"content\":\"Hi\"}}]}''"
  let ?there = "''data: {\"choices\":[{\"delta\":{\"content\":\" there\"}}]}''"
  let ?st = "\<lparr>emitted = [], full_response = [], actual_model = JStr ''gpt-4o''\<rparr>"
  let ?st1 = "\<lparr>emitted = [JStr ''Hi''], full_response = ''Hi'', actual_model = JStr ''gpt-4o''\<rparr>"
  have deep: "read_lines cpython_loads (JStr ''gpt-4o'')
      (Line (''data: '' @ replicate 2000 CHR ''['') # map Line [?there, ''data: [DONE]'']) ?st1 =
      (Inl RecursionError, ?st1)"
    by (rule read_lines_loads_raises[where loads = cpython_loads and e = RecursionError])
       (simp_all add: parse_deep deep_not_done)
  have hi: "read_lines cpython_loads (JStr ''gpt-4o'') (Line ?hi # rest) ?st =
      read_lines cpython_loads (JStr ''gpt-4o'') rest ?st1" for rest
    using data_line[of "''{\"choices\":[{\"delta\":{\"content\":\"Hi\"}}]}''"]
    by (simp add: parse_hi process_delta)
  have there: "read_lines cpython_loads (JStr ''gpt-4o'') (map Line [?there, ''data: [DONE]'']) ?st1 =
      (Inr (), \<lparr>emitted = [JStr ''Hi'', JStr '' there''], full_response = ''Hi there'',
                actual_model = JStr ''gpt-4o''\<rparr>)"
    using data_line[of "''{\"choices\":[{\"delta\":{\"content\":\" there\"}}]}''"]
      data_line[of "''[DONE]''"]
    by (simp add: parse_there process_delta)
  have a: "read_lines cpython_loads (JStr ''gpt-4o'')
     (map Line [?hi, ''data: '' @ replicate 2000 CHR ''['', ?there, ''data: [DONE]''])
     (fresh_stream (JStr ''gpt-4o'')) = (Inl RecursionError, ?st1)"
    using hi[of "Line (''data: '' @ replicate 2000 CHR ''['') # map Line [?there, ''data: [DONE]'']"]
      deep
    by (simp add: fresh_stream_def)
  have b: "read_lines cpython_loads (JStr ''gpt-4o'') (map Line [?hi, ?there, ''data: [DONE]''])
     (fresh_stream (JStr ''gpt-4o'')) =
     (Inr (), \<lparr>emitted = [JStr ''Hi'', JStr '' there''], full_response = ''Hi there'',
               actual_model = JStr ''gpt-4o''\<rparr>)"
    using hi[of "map Line [?there, ''data: [DONE]'']"] there
    by (simp add: fresh_stream_def)
  have g: "get_active_token remote_world = Inr (JStr ''eyJ3b3JrIn0.e30.c2lnbmF0dXJl'')"
    by (simp add: get_active_token_def remote_world_def default_world_def dict_get_def Let_def)
  have c: "send_message cpython_loads deep_line_server remote_world (JStr ''gpt-4o'')
       [(''user'', JStr ''Hello'')] True = Inr ((JNull, JStr ''gpt-4o''), [JStr ''Hi''])"
    using a by (simp add: send_message_def g deep_line_server_def fresh_stream_def Let_def)
  have d: "send_message cpython_loads plain_server remote_world (JStr ''gpt-4o'')
       [(''user'', JStr ''Hello'')] True =
     Inr ((JStr ''Hi there'', JStr ''gpt-4o''), [JStr ''Hi'', JStr '' there''])"
    using b by (simp add: send_message_def g plain_server_def fresh_stream_def Let_def)
  from parse_deep a b c d show ?thesis by blast
qed



section \<open>A failed chat turn\<close>




section \<open>The actual model in streaming mode\<close>








end
